theory Spec2Isabelle
  imports Main "HOL-Library.Multiset" "HOL-Library.Char_ord" "HOL-Library.List_Lexorder"
begin

section \<open>Sound-asset management of FocusKeeper: the data\<close>

text \<open>
  The application keeps audio files in four directories, the attributes of
  \<^verbatim>\<open>AppConfig\<close> that the widgets read: \<^verbatim>\<open>sounds\<close> and \<^verbatim>\<open>ambiences\<close>
  (shipped with the application), \<^verbatim>\<open>user_sounds\<close> and \<^verbatim>\<open>user_ambiences\<close>
  (imported by the user).
\<close>

datatype location = Sounds | Ambiences | UserSounds | UserAmbiences

text \<open>
  A directory is the list of its entries in the order \<^verbatim>\<open>Path.glob('*')\<close> yields them:
  pairs of a file name and the file's content. Entries are plain files. Where a new
  entry lands in that order is the file system's choice; the model appends it, and
  the general theorems below speak of the set of entries only.
\<close>

type_synonym directory = "(string \<times> string) list"

type_synonym filesystem = "location \<Rightarrow> directory"

text \<open>The three roles, \<^verbatim>\<open>Literal['alarm', 'signal', 'ambient']\<close>, and the identifier
  of the \<^verbatim>\<open>Select\<close> widget of each.\<close>

datatype role = Alarm | Signal | Ambient

fun role_id :: "role \<Rightarrow> string" where
  "role_id Alarm = ''alarm''"
| "role_id Signal = ''signal''"
| "role_id Ambient = ''ambient''"

text \<open>One entry of the persisted \<^verbatim>\<open>used_sounds\<close> record: the file name and the
  directory it was bound in.\<close>

record binding =
  name :: string
  path :: location

type_synonym config = "role \<Rightarrow> binding"

record world =
  files :: filesystem
  used_sounds :: config

text \<open>The exceptions the modelled code can raise.\<close>

datatype py_error =
  FileNotFoundError | FileExistsError | KeyError | ValueError | AttributeError
  | IndexError | NoMatches | BadIdentifier

text \<open>\<^verbatim>\<open>Path.rename\<close> replaces an existing target silently on Unix and raises
  \<^verbatim>\<open>FileExistsError\<close> on Windows.\<close>

datatype platform = Unix | Windows

section \<open>Strings and paths\<close>

text \<open>\<^verbatim>\<open>str.rfind(c)\<close>: the highest index of \<open>c\<close>, \<open>None\<close> for Python's \<open>-1\<close>.\<close>

fun rfind :: "char \<Rightarrow> string \<Rightarrow> nat option" where
  "rfind c [] = None"
| "rfind c (x # xs) =
     (case rfind c xs of
        Some i \<Rightarrow> Some (Suc i)
      | None \<Rightarrow> if x = c then Some 0 else None)"

text \<open>\<^verbatim>\<open>PurePath.suffix\<close> and \<^verbatim>\<open>PurePath.stem\<close> of a file name (Python 3.12):
  the part from the last dot on, unless that dot is the first or the last character.\<close>

definition path_suffix :: "string \<Rightarrow> string" where
  "path_suffix nm =
     (case rfind CHR ''.'' nm of
        None \<Rightarrow> []
      | Some i \<Rightarrow> if 0 < i \<and> Suc i < length nm then drop i nm else [])"

definition path_stem :: "string \<Rightarrow> string" where
  "path_stem nm =
     (case rfind CHR ''.'' nm of
        None \<Rightarrow> nm
      | Some i \<Rightarrow> if 0 < i \<and> Suc i < length nm then take i nm else nm)"

text \<open>\<^verbatim>\<open>str.split(c)\<close> for a one-character separator.\<close>

fun str_split :: "char \<Rightarrow> string \<Rightarrow> string list" where
  "str_split c [] = [[]]"
| "str_split c (x # xs) =
     (if x = c then [] # str_split c xs
      else (case str_split c xs of
              [] \<Rightarrow> [[x]]
            | p # ps \<Rightarrow> (x # p) # ps))"

text \<open>\<^verbatim>\<open>[path.name for path in directory.glob('*')]\<close>\<close>

definition glob_names :: "directory \<Rightarrow> string list" where
  "glob_names d = map fst d"

section \<open>Listing\<close>

definition audio_suffixes :: "string list" where
  "audio_suffixes = [''.wav'', ''.mp3'', ''.ogg'', ''.flac'', ''.opus'']"

text \<open>\<^verbatim>\<open>return_sounds_list(*paths)\<close> of \<^verbatim>\<open>focusseeds/sound_settings.py\<close>:
  \<^verbatim>\<open>[sound.name for path in paths for sound in path.glob('*') if sound.suffix in {...}]\<close>\<close>

definition return_sounds_list :: "directory list \<Rightarrow> string list" where
  "return_sounds_list paths =
     [sound. p \<leftarrow> paths, sound \<leftarrow> glob_names p, path_suffix sound \<in> set audio_suffixes]"

text \<open>
  Modelled from the spec: \<^verbatim>\<open>focuskeeper.utils.sound.sounds_list\<close> is imported by
  \<^verbatim>\<open>focuskeeper/widgets/sound_settings.py\<close> and absent from the sources. The spec's
  listing is the directories' files filtered to the allowed extensions; that is what
  \<^verbatim>\<open>return_sounds_list\<close>, which it replaces at the same call sites, computes.
\<close>

definition sounds_list :: "directory list \<Rightarrow> string list" where
  "sounds_list paths = return_sounds_list paths"

text \<open>The value lists of the selectors built by \<^verbatim>\<open>SoundSettings.initialize_attributes\<close>:
  \<^verbatim>\<open>sound_list\<close> for the alarm and signal selectors, \<^verbatim>\<open>ambiences_list\<close> for the
  ambient selector, and \<^verbatim>\<open>sorted(sound_list + ambiences_list)\<close> for the test selector.\<close>

definition sound_list :: "filesystem \<Rightarrow> string list" where
  "sound_list fs = sounds_list [fs Sounds, fs UserSounds]"

definition ambiences_list :: "filesystem \<Rightarrow> string list" where
  "ambiences_list fs = sounds_list [fs Ambiences, fs UserAmbiences]"

definition test_sound_values :: "filesystem \<Rightarrow> string list" where
  "test_sound_values fs = sort (sound_list fs @ ambiences_list fs)"

section \<open>File operations\<close>

text \<open>\<^verbatim>\<open>rename_file(old_path, old_name, new_name)\<close>:
  \<^verbatim>\<open>(old_path / old_name).rename(old_path / new_name)\<close>. A missing source raises
  \<^verbatim>\<open>FileNotFoundError\<close>; renaming a file to its own name changes nothing; an
  existing target is replaced on Unix and raises \<^verbatim>\<open>FileExistsError\<close> on Windows.\<close>

definition rename_entry :: "string \<Rightarrow> string \<Rightarrow> directory \<Rightarrow> directory" where
  "rename_entry old_name new_name d =
     map (\<lambda>(n, c). if n = old_name then (new_name, c) else (n, c))
       (filter (\<lambda>(n, c). n \<noteq> new_name) d)"

definition rename_file ::
  "platform \<Rightarrow> location \<Rightarrow> string \<Rightarrow> string \<Rightarrow> filesystem \<Rightarrow> py_error + filesystem" where
  "rename_file os old_path old_name new_name fs =
     (if old_name \<notin> set (glob_names (fs old_path)) then Inl FileNotFoundError
      else if old_name = new_name then Inr fs
      else if new_name \<in> set (glob_names (fs old_path)) \<and> os = Windows then Inl FileExistsError
      else Inr (fs(old_path := rename_entry old_name new_name (fs old_path))))"

text \<open>\<^verbatim>\<open>shutil.copy(src, directory / name)\<close>, the source given by its content: an
  existing target is overwritten, a new one is created.\<close>

definition copy_into :: "string \<Rightarrow> string \<Rightarrow> directory \<Rightarrow> directory" where
  "copy_into nm content d =
     (if nm \<in> set (glob_names d)
      then map (\<lambda>(n, c). if n = nm then (n, content) else (n, c)) d
      else d @ [(nm, content)])"

section \<open>Import: \<^verbatim>\<open>AddSoundTree.file_selected\<close>\<close>

text \<open>
  Modelled from the spec: \<^verbatim>\<open>focuskeeper.utils.sound.soundify\<close> is absent from the
  sources. The spec derives from the source path the base name, "file name without
  extension", with the file name being base name plus extension.
\<close>

definition soundify :: "string \<Rightarrow> string" where
  "soundify nm = path_stem nm"

text \<open>The user directory of a sound type, as \<^verbatim>\<open>file_selected\<close> and
  \<^verbatim>\<open>open_edit_sound_popup\<close> choose it: \<^verbatim>\<open>user_ambiences\<close> for
  \<^verbatim>\<open>'ambient'\<close>, \<^verbatim>\<open>user_sounds\<close> otherwise.\<close>

fun user_dir :: "role \<Rightarrow> location" where
  "user_dir Ambient = UserAmbiences"
| "user_dir Alarm = UserSounds"
| "user_dir Signal = UserSounds"

text \<open>
  Modelled from the spec: \<^verbatim>\<open>focuskeeper.utils.sound.is_imported_sound\<close> is absent
  from the sources. The spec's \<^verbatim>\<open>isUserImported(fileNameWithExt, category)\<close> is
  "true if a file of that exact name already exists in the user directory for the
  category".
\<close>

definition is_imported_sound :: "string \<Rightarrow> role \<Rightarrow> filesystem \<Rightarrow> bool" where
  "is_imported_sound nm sound_type fs \<longleftrightarrow> nm \<in> set (glob_names (fs (user_dir sound_type)))"

text \<open>The three notifications of \<^verbatim>\<open>file_selected\<close>: 'Sound name reserved for app
  buildin' (error), 'Sound already imported' (warning) and 'Imported: <name>'.\<close>

datatype notice = ReservedName | DuplicateAsset | Imported string

text \<open>
  \<^verbatim>\<open>file_selected\<close>: the selected file is given by its name (the last component of
  \<^verbatim>\<open>event.path\<close>) and its content. \<^verbatim>\<open>AppConfig.forbiden_sound_names()\<close> is absent
  from the sources and is the parameter \<open>forbidden\<close>. The result is the notification
  shown and the world the handler leaves. An input/output failure of the copy itself
  is outside the model.
\<close>

definition file_selected ::
  "string set \<Rightarrow> role \<Rightarrow> string \<Rightarrow> string \<Rightarrow> world \<Rightarrow> notice \<times> world" where
  "file_selected forbidden sound_type src_name src_content w =
     (let soundified_name = soundify src_name @ path_suffix src_name in
      if soundify src_name \<in> forbidden then (ReservedName, w)
      else if is_imported_sound soundified_name sound_type (files w) then (DuplicateAsset, w)
      else
        (let p = (if sound_type = Ambient then UserAmbiences else UserSounds) in
         (Imported soundified_name,
          w\<lparr>files := (files w)(p := copy_into soundified_name src_content (files w p))\<rparr>)))"

section \<open>Role selection: \<^verbatim>\<open>SoundSettings.select_changed\<close>\<close>

datatype select_value = BLANK | Value string

text \<open>
  Modelled from the spec: \<^verbatim>\<open>AppConfig.update_used_sound\<close> is absent from the sources.
  The spec's \<^verbatim>\<open>updateRoleBinding(role, name, path)\<close> is an "unconditional overwrite;
  no validation of file existence".
\<close>

definition update_used_sound :: "role \<Rightarrow> string \<Rightarrow> location \<Rightarrow> config \<Rightarrow> config" where
  "update_used_sound sound_type nm p cfg = cfg(sound_type := \<lparr>name = nm, path = p\<rparr>)"

text \<open>The widget's own state: the names shown in the three prompts.\<close>

record sound_settings =
  set_alarm :: string
  set_signal :: string
  set_ambient :: string

text \<open>\<^verbatim>\<open>select_changed\<close>, the same in both versions of the widget. \<open>control\<close> is
  the selector the event comes from. The early return compares the selector's
  identifier with the three names currently set, as the source does.\<close>

definition select_changed ::
  "role \<Rightarrow> select_value \<Rightarrow> sound_settings \<times> world \<Rightarrow> sound_settings \<times> world" where
  "select_changed control v sw =
     (case sw of (s, w) \<Rightarrow>
      case v of
        BLANK \<Rightarrow> (s, w)
      | Value val \<Rightarrow>
          if role_id control \<in> set [set_alarm s, set_signal s, set_ambient s] then (s, w)
          else
            (let file_path =
                   (if control = Ambient
                    then (if val \<in> set (glob_names (files w Ambiences)) then Ambiences else UserSounds)
                    else (if val \<in> set (glob_names (files w Sounds)) then Sounds else UserSounds));
                 w' = w\<lparr>used_sounds := update_used_sound control val file_path (used_sounds w)\<rparr>
             in if control = Alarm then (s\<lparr>set_alarm := val\<rparr>, w')
                else if control = Signal then (s\<lparr>set_signal := val\<rparr>, w')
                else (s\<lparr>set_ambient := val\<rparr>, w')))"

section \<open>Preview: \<^verbatim>\<open>SoundSettings.listen_to_sound\<close>\<close>

text \<open>The handler returns without playing on a blank selection, asks the mixer to play
  \<open>(directory, name)\<close> from the first listing that holds the name, and raises
  \<^verbatim>\<open>FileNotFoundError\<close> when none does. The result is the mixer call made, if any.\<close>

definition listen_to_sound :: "select_value \<Rightarrow> filesystem \<Rightarrow> py_error + (location \<times> string) option" where
  "listen_to_sound v fs =
     (case v of
        BLANK \<Rightarrow> Inr None
      | Value name_with_ext \<Rightarrow>
          if name_with_ext \<in> set (sounds_list [fs UserSounds])
            then Inr (Some (UserSounds, name_with_ext))
          else if name_with_ext \<in> set (sounds_list [fs UserAmbiences])
            then Inr (Some (UserAmbiences, name_with_ext))
          else if name_with_ext \<in> set (sounds_list [fs Sounds])
            then Inr (Some (Sounds, name_with_ext))
          else if name_with_ext \<in> set (sounds_list [fs Ambiences])
            then Inr (Some (Ambiences, name_with_ext))
          else Inl FileNotFoundError)"

text \<open>The resolution order in the spec's words, for comparison: "sound pool first, then
  ambient pool", and within a category "checking file existence in each, built-in
  first".\<close>

definition preview_spec_order :: "location list" where
  "preview_spec_order = [Sounds, UserSounds, Ambiences, UserAmbiences]"

definition preview_spec :: "string \<Rightarrow> filesystem \<Rightarrow> py_error + (location \<times> string) option" where
  "preview_spec nm fs =
     (case find (\<lambda>l. nm \<in> set (glob_names (fs l))) preview_spec_order of
        None \<Rightarrow> Inl FileNotFoundError
      | Some l \<Rightarrow> Inr (Some (l, nm)))"

section \<open>The edit modal: \<^verbatim>\<open>EditSound\<close>\<close>

text \<open>\<^verbatim>\<open>remove_id_suffix(string)\<close>: \<^verbatim>\<open>string[:string.rindex('_')]\<close>. A widget without
  an identifier has \<^verbatim>\<open>id = None\<close>, on which the attribute access raises; a string
  without an underscore makes \<^verbatim>\<open>rindex\<close> raise \<^verbatim>\<open>ValueError\<close>.\<close>

definition remove_id_suffix :: "string option \<Rightarrow> py_error + string" where
  "remove_id_suffix ident =
     (case ident of
        None \<Rightarrow> Inl AttributeError
      | Some s \<Rightarrow>
          (case rfind CHR ''_'' s of
             None \<Rightarrow> Inl ValueError
           | Some i \<Rightarrow> Inr (take i s)))"

text \<open>
  The toolkit accepts as a widget identifier a full match of
  \<^verbatim>\<open>[a-zA-Z_\-][a-zA-Z0-9_\-]*\<close> and raises \<^verbatim>\<open>BadIdentifier\<close> in the widget's
  constructor otherwise. The inputs of the modal are created with
  \<^verbatim>\<open>restrict=r'^[a-zA-Z0-9_-]+$'\<close> and refuse an edit whose result does not match.
\<close>

definition ident_start :: "char \<Rightarrow> bool" where
  "ident_start c \<longleftrightarrow> c \<in> set ''abcdefghijklmnopqrstuvwxyzABCDEFGHIJKLMNOPQRSTUVWXYZ_-''"

definition ident_char :: "char \<Rightarrow> bool" where
  "ident_char c \<longleftrightarrow> ident_start c \<or> c \<in> set ''0123456789''"

definition valid_identifier :: "string \<Rightarrow> bool" where
  "valid_identifier s = (case s of [] \<Rightarrow> False | c # cs \<Rightarrow> ident_start c \<and> list_all ident_char cs)"

definition restrict_ok :: "string \<Rightarrow> bool" where
  "restrict_ok s \<longleftrightarrow> s \<noteq> [] \<and> list_all ident_char s"

text \<open>A Python dictionary as the list of its items in insertion order:
  \<^verbatim>\<open>d[k] = v\<close> and \<^verbatim>\<open>del d[k]\<close> (the handler deletes a key it has just read).\<close>

definition dict_set :: "string \<Rightarrow> string \<Rightarrow> (string \<times> string) list \<Rightarrow> (string \<times> string) list" where
  "dict_set k v d =
     (if k \<in> set (map fst d)
      then map (\<lambda>(k', v'). if k' = k then (k', v) else (k', v')) d
      else d @ [(k, v)])"

definition dict_del :: "string \<Rightarrow> (string \<times> string) list \<Rightarrow> (string \<times> string) list" where
  "dict_del k d = filter (\<lambda>(k', v'). k' \<noteq> k) d"

text \<open>
  The modal's state: its two constructor arguments, the dictionary \<^verbatim>\<open>sounds_names\<close>
  from base name to extension, and of the widgets that \<^verbatim>\<open>compose\<close> creates for each
  key the two parts the handlers read or write: the value of the input
  \<^verbatim>\<open><name>_input\<close> and the \<^verbatim>\<open>disabled\<close> flag of the button \<^verbatim>\<open><name>_rename\<close>.
\<close>

record edit_sound =
  sound_type :: role
  path_to_sounds :: location
  sounds_names :: "(string \<times> string) list"
  input_value :: "string \<rightharpoonup> string"
  rename_disabled :: "string \<rightharpoonup> bool"

text \<open>The dictionary comprehension of \<^verbatim>\<open>EditSound.__init__\<close>:
  \<^verbatim>\<open>{sound.split('.')[0]: f'.{sound.split('.')[1]}' for sound in ...}\<close>; a later
  entry with the same key replaces the value of an earlier one.\<close>

fun names_dict ::
  "string list \<Rightarrow> (string \<times> string) list \<Rightarrow> py_error + (string \<times> string) list" where
  "names_dict [] d = Inr d"
| "names_dict (sound # rest) d =
     (case str_split CHR ''.'' sound of
        k # e # _ \<Rightarrow> names_dict rest (dict_set k (CHR ''.'' # e) d)
      | _ \<Rightarrow> Inl IndexError)"

definition EditSound :: "role \<Rightarrow> location \<Rightarrow> filesystem \<Rightarrow> py_error + edit_sound" where
  "EditSound st p fs =
     (case names_dict (return_sounds_list [fs p]) [] of
        Inl e \<Rightarrow> Inl e
      | Inr d \<Rightarrow>
          Inr \<lparr>sound_type = st, path_to_sounds = p, sounds_names = d,
               input_value = Map.empty, rename_disabled = Map.empty\<rparr>)"

text \<open>\<^verbatim>\<open>compose\<close>: for every key a collapsible \<^verbatim>\<open><name>_coll\<close> holding an input
  with the key as value, a disabled rename button and a remove button. The first
  widget built for a key that is no valid identifier raises.\<close>

definition compose :: "edit_sound \<Rightarrow> py_error + edit_sound" where
  "compose m =
     (let keys = map fst (sounds_names m) in
      if list_all (\<lambda>n. valid_identifier (n @ ''_coll'')) keys
      then Inr (m\<lparr>input_value := map_of (map (\<lambda>n. (n, n)) keys),
                  rename_disabled := map_of (map (\<lambda>n. (n, True)) keys)\<rparr>)
      else Inl BadIdentifier)"

text \<open>\<^verbatim>\<open>check_sound_name\<close>, the handler of \<^verbatim>\<open>Input.Changed\<close>: the rename button of
  the input's collapsible is disabled exactly when the typed value is a key of
  \<^verbatim>\<open>sounds_names\<close>.\<close>

definition check_sound_name :: "string option \<Rightarrow> string \<Rightarrow> edit_sound \<Rightarrow> py_error + edit_sound" where
  "check_sound_name input_id val m =
     (case remove_id_suffix input_id of
        Inl e \<Rightarrow> Inl e
      | Inr n \<Rightarrow>
          (case rename_disabled m n of
             None \<Rightarrow> Inl NoMatches
           | Some _ \<Rightarrow>
               Inr (m\<lparr>rename_disabled :=
                       (rename_disabled m)(n \<mapsto> (map_of (sounds_names m) val \<noteq> None))\<rparr>)))"

text \<open>
  \<^verbatim>\<open>change_sound_name\<close>, a handler of \<^verbatim>\<open>Button.Pressed\<close>. A raising handler is
  \<open>Inl\<close> of the exception and the world it leaves. The exceptions of the lookups and
  of the rename come before any mutation. After the rename the handler updates the
  dictionary, calls \<^verbatim>\<open>self.config.change_sound_name_if_in_config(self.sound_type,
  new_name_with_extension)\<close> and recomposes the widgets, which raises for a new name
  that is no valid identifier, with the file already renamed.

  \<^verbatim>\<open>AppConfig.change_sound_name_if_in_config\<close> is absent from the sources. It is
  the parameter \<open>cfg\<close>: any function that, from the two arguments of the call and the
  world at the call, gives the bindings the call leaves.
\<close>

definition change_sound_name ::
  "(role \<Rightarrow> string \<Rightarrow> world \<Rightarrow> config) \<Rightarrow> platform \<Rightarrow> string option \<Rightarrow> edit_sound \<times> world
     \<Rightarrow> py_error \<times> world + edit_sound \<times> world" where
  "change_sound_name cfg os button_id mw =
     (case mw of (m, w) \<Rightarrow>
      case remove_id_suffix button_id of
        Inl e \<Rightarrow> Inl (e, w)
      | Inr sound_name \<Rightarrow>
      case map_of (sounds_names m) sound_name of
        None \<Rightarrow> Inl (KeyError, w)
      | Some extension \<Rightarrow>
      case input_value m sound_name of
        None \<Rightarrow> Inl (NoMatches, w)
      | Some new_name \<Rightarrow>
      let old_name = sound_name @ extension;
          new_name_with_extension = new_name @ extension
      in
      case rename_file os (path_to_sounds m) old_name new_name_with_extension (files w) of
        Inl e \<Rightarrow> Inl (e, w)
      | Inr fs' \<Rightarrow>
          let m' = m\<lparr>sounds_names := dict_set new_name extension (dict_del sound_name (sounds_names m))\<rparr>;
              w' = w\<lparr>files := fs'\<rparr>;
              w'' = w'\<lparr>used_sounds := cfg (sound_type m) new_name_with_extension w'\<rparr>
          in
          case compose m' of
            Inl e \<Rightarrow> Inl (e, w'')
          | Inr m'' \<Rightarrow> Inr (m'', w''))"

text \<open>\<^verbatim>\<open>remove_sound\<close>, the second handler of \<^verbatim>\<open>Button.Pressed\<close>: its body is the
  docstring alone.\<close>

definition remove_sound :: "edit_sound \<times> world \<Rightarrow> edit_sound \<times> world" where
  "remove_sound mw = mw"

text \<open>Both handlers are registered with \<^verbatim>\<open>@on(Button.Pressed)\<close> and no selector, so
  a pressed button runs both, in the order of their definition; an exception of the
  first ends the dispatch.\<close>

definition button_pressed ::
  "(role \<Rightarrow> string \<Rightarrow> world \<Rightarrow> config) \<Rightarrow> platform \<Rightarrow> string option \<Rightarrow> edit_sound \<times> world
     \<Rightarrow> py_error \<times> world + edit_sound \<times> world" where
  "button_pressed cfg os button_id mw =
     (case change_sound_name cfg os button_id mw of
        Inl ew \<Rightarrow> Inl ew
      | Inr mw' \<Rightarrow> Inr (remove_sound mw'))"

text \<open>The buttons of the modal: per sound a rename and a remove button, and the add
  button, which has no identifier.\<close>

datatype button = Rename string | Remove string | Add

fun button_id_of :: "button \<Rightarrow> string option" where
  "button_id_of (Rename n) = Some (n @ ''_rename'')"
| "button_id_of (Remove n) = Some (n @ ''_remove'')"
| "button_id_of Add = None"

text \<open>What the user can do in the modal: bring the input of a sound to a value (the
  input refuses a value against its pattern; an accepted one raises
  \<^verbatim>\<open>Input.Changed\<close>), or click a button (a disabled button sends no event).\<close>

datatype action = Type string string | Click button

definition is_disabled :: "edit_sound \<Rightarrow> button \<Rightarrow> bool" where
  "is_disabled m b = (case b of Rename n \<Rightarrow> rename_disabled m n = Some True | _ \<Rightarrow> False)"

definition perform ::
  "(role \<Rightarrow> string \<Rightarrow> world \<Rightarrow> config) \<Rightarrow> platform \<Rightarrow> action \<Rightarrow> edit_sound \<times> world
     \<Rightarrow> py_error \<times> world + edit_sound \<times> world" where
  "perform cfg os a mw =
     (case mw of (m, w) \<Rightarrow>
      case a of
        Type n val \<Rightarrow>
          (case input_value m n of
             None \<Rightarrow> Inl (NoMatches, w)
           | Some _ \<Rightarrow>
               if \<not> restrict_ok val then Inr (m, w)
               else
                 (case check_sound_name (Some (n @ ''_input'')) val
                         (m\<lparr>input_value := (input_value m)(n \<mapsto> val)\<rparr>) of
                    Inl e \<Rightarrow> Inl (e, w)
                  | Inr m' \<Rightarrow> Inr (m', w)))
      | Click b \<Rightarrow>
          if is_disabled m b then Inr (m, w) else button_pressed cfg os (button_id_of b) (m, w))"

fun perform_all ::
  "(role \<Rightarrow> string \<Rightarrow> world \<Rightarrow> config) \<Rightarrow> platform \<Rightarrow> action list \<Rightarrow> edit_sound \<times> world
     \<Rightarrow> py_error \<times> world + edit_sound \<times> world" where
  "perform_all cfg os [] mw = Inr mw"
| "perform_all cfg os (a # as) mw =
     (case perform cfg os a mw of
        Inl ew \<Rightarrow> Inl ew
      | Inr mw' \<Rightarrow> perform_all cfg os as mw')"

text \<open>\<^verbatim>\<open>open_edit_sound_popup\<close> of the settings widget pushes the modal on the user
  directory of the pressed edit button, which constructs and composes it; a session
  is the modal opened and a sequence of actions performed in it.\<close>

datatype edit_button = EditAlarm | EditAmbient

definition open_edit_sound_popup :: "edit_button \<Rightarrow> filesystem \<Rightarrow> py_error + edit_sound" where
  "open_edit_sound_popup b fs =
     (case (if b = EditAmbient then EditSound Ambient UserAmbiences fs
            else EditSound Alarm UserSounds fs) of
        Inl e \<Rightarrow> Inl e
      | Inr m \<Rightarrow> compose m)"

definition edit_session ::
  "(role \<Rightarrow> string \<Rightarrow> world \<Rightarrow> config) \<Rightarrow> platform \<Rightarrow> edit_button \<Rightarrow> action list \<Rightarrow> world
     \<Rightarrow> py_error \<times> world + edit_sound \<times> world" where
  "edit_session cfg os b as w =
     (case open_edit_sound_popup b (files w) of
        Inl e \<Rightarrow> Inl (e, w)
      | Inr m \<Rightarrow> perform_all cfg os as (m, w))"

text \<open>What a session leaves behind when it ends without an exception: the entries of
  one directory, one binding, the listings. \<open>files_left\<close> is the directory in either
  case.\<close>

definition files_after ::
  "location \<Rightarrow> py_error \<times> world + edit_sound \<times> world \<Rightarrow> py_error + directory" where
  "files_after l r = (case r of Inl (e, w) \<Rightarrow> Inl e | Inr (m, w) \<Rightarrow> Inr (files w l))"

definition files_left :: "location \<Rightarrow> py_error \<times> world + edit_sound \<times> world \<Rightarrow> directory" where
  "files_left l r = (case r of Inl (e, w) \<Rightarrow> files w l | Inr (m, w) \<Rightarrow> files w l)"

definition binding_after ::
  "role \<Rightarrow> py_error \<times> world + edit_sound \<times> world \<Rightarrow> py_error + binding" where
  "binding_after r res = (case res of Inl (e, w) \<Rightarrow> Inl e | Inr (m, w) \<Rightarrow> Inr (used_sounds w r))"

definition sound_list_after ::
  "py_error \<times> world + edit_sound \<times> world \<Rightarrow> py_error + string list" where
  "sound_list_after res =
     (case res of Inl (e, w) \<Rightarrow> Inl e | Inr (m, w) \<Rightarrow> Inr (sound_list (files w)))"

definition ambiences_list_after ::
  "py_error \<times> world + edit_sound \<times> world \<Rightarrow> py_error + string list" where
  "ambiences_list_after res =
     (case res of Inl (e, w) \<Rightarrow> Inl e | Inr (m, w) \<Rightarrow> Inr (ambiences_list (files w)))"

section \<open>Concrete worlds\<close>

text \<open>The user ambiences directory holds \<^verbatim>\<open>forest.wav\<close>; every role is bound to the
  shipped \<^verbatim>\<open>bell.wav\<close>.\<close>

definition forest_world :: world where
  "forest_world =
     \<lparr>files = (\<lambda>_. [])(Sounds := [(''bell.wav'', ''ding'')],
                        UserAmbiences := [(''forest.wav'', ''birds'')]),
      used_sounds = (\<lambda>_. \<lparr>name = ''bell.wav'', path = Sounds\<rparr>)\<rparr>"

text \<open>A shipped \<^verbatim>\<open>bell.wav\<close> and a user file of the same name.\<close>

definition bell_twice :: filesystem where
  "bell_twice =
     (\<lambda>_. [])(Sounds := [(''bell.wav'', ''ding'')], UserSounds := [(''bell.wav'', ''dong'')])"

text \<open>Scenario A of the spec, the shipped sounds \<^verbatim>\<open>bell\<close> and \<^verbatim>\<open>chime\<close> and no
  user file: once with the directory yielding \<^verbatim>\<open>chime.wav\<close> first, once in
  alphabetical order, beside a text file and a shipped ambience.\<close>

definition scenario_a :: filesystem where
  "scenario_a = (\<lambda>_. [])(Sounds := [(''chime.wav'', ''ting''), (''bell.wav'', ''ding'')])"

definition scenario_a_sorted :: filesystem where
  "scenario_a_sorted =
     (\<lambda>_. [])(Sounds := [(''bell.wav'', ''ding''), (''chime.wav'', ''ting''), (''notes.txt'', ''abc'')],
               Ambiences := [(''air.ogg'', ''hum'')])"

text \<open>The worlds of the edit sessions below. In \<open>loop_world\<close> the user has a sound
  and an ambience \<^verbatim>\<open>loop.wav\<close>, and the ambient role is bound to the ambience.\<close>

definition loop_world :: world where
  "loop_world =
     \<lparr>files = (\<lambda>_. [])(Sounds := [(''bell.wav'', ''ding'')],
                        UserSounds := [(''loop.wav'', ''tick'')],
                        UserAmbiences := [(''loop.wav'', ''drip'')]),
      used_sounds = (\<lambda>_. \<lparr>name = ''bell.wav'', path = Sounds\<rparr>)
                      (Ambient := \<lparr>name = ''loop.wav'', path = UserAmbiences\<rparr>)\<rparr>"

definition two_sounds_world :: world where
  "two_sounds_world =
     \<lparr>files = (\<lambda>_. [])(Sounds := [(''bell.wav'', ''ding'')],
                        UserSounds := [(''rain.wav'', ''drops''), (''wind.wav'', ''gusts'')]),
      used_sounds = (\<lambda>_. \<lparr>name = ''bell.wav'', path = Sounds\<rparr>)\<rparr>"

text \<open>The settings widget with the shipped bell shown for every role.\<close>

definition bell_settings :: sound_settings where
  "bell_settings =
     \<lparr>set_alarm = ''bell.wav'', set_signal = ''bell.wav'', set_ambient = ''bell.wav''\<rparr>"

section \<open>Auxiliary facts\<close>

lemma rfind_None: "rfind c xs = None \<longleftrightarrow> c \<notin> set xs"
  by (induction xs) (auto split: option.splits)

lemma path_stem_suffix: "path_stem nm @ path_suffix nm = nm"
  by (simp add: path_stem_def path_suffix_def split: option.splits)

lemma soundified_name: "soundify nm @ path_suffix nm = nm"
  by (simp add: soundify_def path_stem_suffix)

lemma user_dir_eq: "user_dir st = (if st = Ambient then UserAmbiences else UserSounds)"
  by (cases st) simp_all

text \<open>The import handler refuses a reserved base name before anything else.\<close>

lemma file_selected_reserved:
  "soundify src_name \<in> forbidden \<Longrightarrow>
   file_selected forbidden st src_name c w = (ReservedName, w)"
  by (simp add: file_selected_def)

section \<open>Import\<close>

text \<open>
  C6: an import whose file name already exists in the user directory of the category
  is refused and copies nothing. The notification is the duplicate one once the
  import has passed the reserved-name check, which comes first (step 2 before step 3
  of the spec's import); it is the duplicate one for every such import where no file
  of the user directory bears a reserved base name, the spec's invariant I3. Both
  checks precede the copy: whenever the import is refused, the file system and the
  configuration are as before.
\<close>

theorem import_duplicate_rejected:
  "(is_imported_sound src_name st (files w) \<longrightarrow>
      file_selected forbidden st src_name c w =
        (if soundify src_name \<in> forbidden then ReservedName else DuplicateAsset, w))
   \<and> (fst (file_selected forbidden st src_name c w) \<in> {ReservedName, DuplicateAsset} \<longrightarrow>
      snd (file_selected forbidden st src_name c w) = w)
   \<and> (is_imported_sound src_name st (files w)
        \<and> (\<forall>n \<in> set (glob_names (files w (user_dir st))). soundify n \<notin> forbidden) \<longrightarrow>
      file_selected forbidden st src_name c w = (DuplicateAsset, w))"
  by (auto simp: file_selected_def soundified_name Let_def is_imported_sound_def)

theorem import_duplicate_rejected_witness:
  "is_imported_sound ''forest.wav'' Ambient (files forest_world)
   \<and> glob_names (files forest_world (user_dir Ambient)) = [''forest.wav'']
   \<and> soundify ''forest.wav'' \<notin> {''river''}
   \<and> file_selected {''river''} Ambient ''forest.wav'' ''wind'' forest_world
       = (DuplicateAsset, forest_world)"
proof -
  have h: "is_imported_sound ''forest.wav'' Ambient (files forest_world)"
    by (simp add: forest_world_def is_imported_sound_def glob_names_def)
  have g: "glob_names (files forest_world (user_dir Ambient)) = [''forest.wav'']"
    by (simp add: forest_world_def glob_names_def)
  have r: "soundify ''forest.wav'' \<notin> {''river''}"
    by (simp add: soundify_def path_stem_def)
  have i3: "\<forall>n \<in> set (glob_names (files forest_world (user_dir Ambient))). soundify n \<notin> {''river''}"
    unfolding g using r by simp
  from import_duplicate_rejected [of "''forest.wav''" Ambient forest_world "{''river''}" "''wind''"]
  have "file_selected {''river''} Ambient ''forest.wav'' ''wind'' forest_world
          = (DuplicateAsset, forest_world)"
    using h i3 by blast
  with h g r show ?thesis
    by blast
qed

text \<open>
  C7: a successful import puts the source file, under its own name and with its
  content, into the user directory of the category (the user ambiences directory for
  the ambient type, the user sounds directory otherwise), leaves the entries already
  there and every other directory alone, and does not touch the configuration.
\<close>

theorem import_copies_into_user_dir:
  assumes "file_selected forbidden st src_name c w = (Imported n, w')"
  shows "n = src_name
    \<and> set (files w' (user_dir st)) = insert (src_name, c) (set (files w (user_dir st)))
    \<and> user_dir st = (if st = Ambient then UserAmbiences else UserSounds)
    \<and> (\<forall>l. l \<noteq> user_dir st \<longrightarrow> files w' l = files w l)
    \<and> used_sounds w' = used_sounds w"
  using assms
  by (auto simp: file_selected_def soundified_name Let_def user_dir_eq is_imported_sound_def
      copy_into_def split: if_splits)

theorem import_copies_into_user_dir_witness:
  "file_selected {''forest''} Ambient ''loop.wav'' ''drip'' forest_world
     = (Imported ''loop.wav'',
        forest_world\<lparr>files := (files forest_world)
          (UserAmbiences := [(''forest.wav'', ''birds''), (''loop.wav'', ''drip'')])\<rparr>)
   \<and> set (files (snd (file_selected {''forest''} Ambient ''loop.wav'' ''drip'' forest_world))
            UserAmbiences)
       = {(''forest.wav'', ''birds''), (''loop.wav'', ''drip'')}
   \<and> used_sounds (snd (file_selected {''forest''} Ambient ''loop.wav'' ''drip'' forest_world))
       = used_sounds forest_world"
proof -
  have e: "file_selected {''forest''} Ambient ''loop.wav'' ''drip'' forest_world
     = (Imported ''loop.wav'',
        forest_world\<lparr>files := (files forest_world)
          (UserAmbiences := [(''forest.wav'', ''birds''), (''loop.wav'', ''drip'')])\<rparr>)"
    by (simp add: file_selected_def forest_world_def is_imported_sound_def glob_names_def
        soundify_def path_stem_def path_suffix_def copy_into_def Let_def)
  from import_copies_into_user_dir [OF e] e show ?thesis
    by (auto simp: forest_world_def)
qed

section \<open>Preview\<close>

text \<open>
  C4, as stated, fails on the order: where a name is both a shipped sound and a user
  sound, the handler plays the user's file, and the order of the claim (sound pool
  first, built-in before user) gives the shipped one.
\<close>

theorem preview_order_counterexample:
  "listen_to_sound (Value ''bell.wav'') bell_twice = Inr (Some (UserSounds, ''bell.wav''))
   \<and> preview_spec ''bell.wav'' bell_twice = Inr (Some (Sounds, ''bell.wav''))"
  by (simp add: listen_to_sound_def preview_spec_def preview_spec_order_def bell_twice_def
      sounds_list_def return_sounds_list_def glob_names_def path_suffix_def audio_suffixes_def)

text \<open>
  C4 (amended): for every display name, the preview plays the file from the first of
  the user sounds, the user ambiences, the shipped sounds and the shipped ambiences
  whose listing of audio files holds the name, in this order; it fails with
  \<^verbatim>\<open>FileNotFoundError\<close> if and only if none of the four listings holds the name. A
  blank selection does nothing.
\<close>

theorem listen_to_sound_resolution:
  "listen_to_sound (Value nm) fs =
     (case find (\<lambda>l. nm \<in> set (sounds_list [fs l]))
             [UserSounds, UserAmbiences, Sounds, Ambiences] of
        None \<Rightarrow> Inl FileNotFoundError
      | Some l \<Rightarrow> Inr (Some (l, nm)))
   \<and> (listen_to_sound (Value nm) fs = Inl FileNotFoundError
        \<longleftrightarrow> (\<forall>l. nm \<notin> set (sounds_list [fs l])))
   \<and> listen_to_sound BLANK fs = Inr None"
proof -
  have every: "(\<forall>l. P l) \<longleftrightarrow> P UserSounds \<and> P UserAmbiences \<and> P Sounds \<and> P Ambiences" for P
    by (metis location.exhaust)
  show ?thesis
    unfolding every [of "\<lambda>l. nm \<notin> set (sounds_list [fs l])"]
    by (simp add: listen_to_sound_def)
qed

theorem listen_to_sound_resolution_witness:
  "listen_to_sound (Value ''bell.wav'') bell_twice = Inr (Some (UserSounds, ''bell.wav''))
   \<and> listen_to_sound (Value ''gong.wav'') bell_twice = Inl FileNotFoundError"
  using listen_to_sound_resolution [of "''bell.wav''" bell_twice]
    listen_to_sound_resolution [of "''gong.wav''" bell_twice]
  by (simp add: bell_twice_def sounds_list_def return_sounds_list_def glob_names_def
      path_suffix_def audio_suffixes_def)

section \<open>Listing\<close>

lemma concat_if_filter: "concat (map (\<lambda>x. if P x then [x] else []) xs) = filter P xs"
  by (induction xs) simp_all

lemma return_sounds_list_two:
  "return_sounds_list [d1, d2] =
     filter (\<lambda>n. path_suffix n \<in> set audio_suffixes) (glob_names d1)
     @ filter (\<lambda>n. path_suffix n \<in> set audio_suffixes) (glob_names d2)"
  by (simp add: return_sounds_list_def concat_if_filter)

text \<open>
  C8, as stated, fails: the listing of a category is not sorted, and its elements are
  file names with their extension. In scenario A, with the directory yielding
  \<^verbatim>\<open>chime.wav\<close> before \<^verbatim>\<open>bell.wav\<close>, the listing is neither sorted nor the list
  of the two base names.
\<close>

theorem listing_counterexample:
  "return_sounds_list [scenario_a Sounds, scenario_a UserSounds] = [''chime.wav'', ''bell.wav'']
   \<and> \<not> sorted (return_sounds_list [scenario_a Sounds, scenario_a UserSounds])
   \<and> return_sounds_list [scenario_a Sounds, scenario_a UserSounds] \<noteq> [''bell'', ''chime'']"
  by code_simp

text \<open>
  C8 (amended): for every category, the listing is the file names (with extension) of
  the built-in directory followed by those of the user directory, each in the order
  the directory yields them and restricted to the files whose extension is one of
  \<^verbatim>\<open>.wav .mp3 .ogg .flac .opus\<close>. Only the list of the preview selector, both
  categories together, is sorted.
\<close>

theorem listing_is_filtered_concatenation:
  "return_sounds_list [fs Sounds, fs UserSounds] =
     filter (\<lambda>n. path_suffix n \<in> set audio_suffixes) (glob_names (fs Sounds))
     @ filter (\<lambda>n. path_suffix n \<in> set audio_suffixes) (glob_names (fs UserSounds))
   \<and> return_sounds_list [fs Ambiences, fs UserAmbiences] =
     filter (\<lambda>n. path_suffix n \<in> set audio_suffixes) (glob_names (fs Ambiences))
     @ filter (\<lambda>n. path_suffix n \<in> set audio_suffixes) (glob_names (fs UserAmbiences))
   \<and> sorted (test_sound_values fs)
   \<and> mset (test_sound_values fs) = mset (sound_list fs) + mset (ambiences_list fs)"
  by (simp add: return_sounds_list_two test_sound_values_def)

theorem listing_is_filtered_concatenation_witness:
  "return_sounds_list [scenario_a_sorted Sounds, scenario_a_sorted UserSounds]
     = [''bell.wav'', ''chime.wav'']
   \<and> test_sound_values scenario_a_sorted = [''air.ogg'', ''bell.wav'', ''chime.wav'']"
  using listing_is_filtered_concatenation [of scenario_a_sorted]
  apply (simp add: scenario_a_sorted_def glob_names_def path_suffix_def audio_suffixes_def)
  apply code_simp
  done

section \<open>The edit modal\<close>

text \<open>An exception after the mutation: renamed to \<^verbatim>\<open>1loop\<close>, which the input
  accepts and which is no key, the file is renamed and the widgets cannot be
  recomposed.\<close>

lemma rename_to_digit_name_raises_after_rename:
  "files_after UserAmbiences
     (edit_session cfg Unix EditAmbient [Type ''loop'' ''1loop'', Click (Rename ''loop'')]
        loop_world)
     = Inl BadIdentifier
   \<and> files_left UserAmbiences
       (edit_session cfg Unix EditAmbient [Type ''loop'' ''1loop'', Click (Rename ''loop'')]
          loop_world)
     = [(''1loop.wav'', ''drip'')]"
  by code_simp

text \<open>
  C1, at the failing input: with \<^verbatim>\<open>forest\<close> reserved, the import of a file
  \<^verbatim>\<open>forest.wav\<close> is refused, but the rename of the user ambience \<^verbatim>\<open>loop\<close> to
  \<^verbatim>\<open>forest\<close> goes through on either platform: the rename handler never reads the
  reserved names, the file is renamed and the listing changes.
\<close>

theorem rename_to_reserved_name_goes_through:
  "fst (file_selected {''forest''} Ambient ''forest.wav'' ''wind'' loop_world) = ReservedName
   \<and> files_after UserAmbiences
        (edit_session cfg Unix EditAmbient [Type ''loop'' ''forest'', Click (Rename ''loop'')]
           loop_world)
       = Inr [(''forest.wav'', ''drip'')]
   \<and> files_after UserAmbiences
        (edit_session cfg Windows EditAmbient [Type ''loop'' ''forest'', Click (Rename ''loop'')]
           loop_world)
       = Inr [(''forest.wav'', ''drip'')]
   \<and> ambiences_list_after
        (edit_session cfg Unix EditAmbient [Type ''loop'' ''forest'', Click (Rename ''loop'')]
           loop_world)
       = Inr [''forest.wav'']"
  by code_simp

text \<open>
  C2, at the failing input: the ambient role is bound to the user ambience
  \<^verbatim>\<open>loop.wav\<close> and the remove button of \<^verbatim>\<open>loop\<close> is pressed. The file is still
  there and still listed. The binding is the one left by the configuration call of
  the rename handler, which the press runs on the unchanged name; the remove handler
  adds nothing to it.
\<close>

theorem remove_press_removes_nothing:
  "files_after UserAmbiences
     (edit_session cfg Unix EditAmbient [Click (Remove ''loop'')] loop_world)
     = Inr [(''loop.wav'', ''drip'')]
   \<and> ambiences_list_after
       (edit_session cfg Unix EditAmbient [Click (Remove ''loop'')] loop_world)
     = Inr [''loop.wav'']
   \<and> binding_after Ambient
       (edit_session cfg Unix EditAmbient [Click (Remove ''loop'')] loop_world)
     = Inr (cfg Ambient ''loop.wav'' loop_world Ambient)
   \<and> remove_sound (m, loop_world) = (m, loop_world)"
proof -
  have press:
    "files_after UserAmbiences
       (edit_session cfg Unix EditAmbient [Click (Remove ''loop'')] loop_world)
       = Inr [(''loop.wav'', ''drip'')]
     \<and> ambiences_list_after
         (edit_session cfg Unix EditAmbient [Click (Remove ''loop'')] loop_world)
       = Inr [''loop.wav'']
     \<and> binding_after Ambient
         (edit_session cfg Unix EditAmbient [Click (Remove ''loop'')] loop_world)
       = Inr (cfg Ambient ''loop.wav'' loop_world Ambient)"
    by code_simp
  have "remove_sound (m, loop_world) = (m, loop_world)"
    by (simp add: remove_sound_def)
  with press show ?thesis
    by blast
qed

text \<open>
  C5, at the failing input: \<^verbatim>\<open>bell.wav\<close> is a shipped sound and the user renames
  the sound \<^verbatim>\<open>loop\<close> to \<^verbatim>\<open>bell\<close>. The rename button is not disabled, since
  \<^verbatim>\<open>check_sound_name\<close> looks among the user's names only; the rename goes through,
  and the merged listing of the sounds holds \<^verbatim>\<open>bell.wav\<close> twice.
\<close>

theorem rename_to_built_in_name_duplicates:
  "sound_list_after
     (edit_session cfg Unix EditAlarm [Type ''loop'' ''bell'', Click (Rename ''loop'')] loop_world)
     = Inr [''bell.wav'', ''bell.wav'']
   \<and> sound_list_after
       (edit_session cfg Windows EditAlarm [Type ''loop'' ''bell'', Click (Rename ''loop'')]
          loop_world)
     = Inr [''bell.wav'', ''bell.wav'']"
  by code_simp

text \<open>
  C10, at the failing input: the user has the sounds \<^verbatim>\<open>rain.wav\<close> and
  \<^verbatim>\<open>wind.wav\<close> and types \<^verbatim>\<open>wind\<close> into the input of \<^verbatim>\<open>rain\<close>. The rename
  button of \<^verbatim>\<open>rain\<close> is disabled by that, and a click on it changes nothing. A
  press of the remove button of \<^verbatim>\<open>rain\<close> runs the rename handler all the same: on
  Unix \<^verbatim>\<open>rain.wav\<close> is renamed onto \<^verbatim>\<open>wind.wav\<close> and of the two files one is left,
  the old \<^verbatim>\<open>wind.wav\<close> being lost; on Windows the rename raises.
\<close>

theorem remove_press_replaces_other_file:
  "files_after UserSounds
     (edit_session cfg Unix EditAlarm [Type ''rain'' ''wind'', Click (Rename ''rain'')]
        two_sounds_world)
     = Inr [(''rain.wav'', ''drops''), (''wind.wav'', ''gusts'')]
   \<and> files_after UserSounds
       (edit_session cfg Unix EditAlarm [Type ''rain'' ''wind'', Click (Remove ''rain'')]
          two_sounds_world)
     = Inr [(''wind.wav'', ''drops'')]
   \<and> files_after UserSounds
       (edit_session cfg Windows EditAlarm [Type ''rain'' ''wind'', Click (Remove ''rain'')]
          two_sounds_world)
     = Inl FileExistsError"
  by code_simp

section \<open>Role selection\<close>

text \<open>
  C9: when the selection handler gets past its early return and the selected value is
  not a file name of the built-in directory of the selector's category, the binding
  it records is the value with the user sounds directory as path, for the ambient
  selector too; the file system is untouched, so where the value is not a file of the
  user sounds directory the recorded binding names a file that does not exist.
\<close>

theorem select_changed_records_user_sounds:
  assumes "role_id control \<notin> {set_alarm s, set_signal s, set_ambient s}"
      and "val \<notin> set (glob_names (files w (if control = Ambient then Ambiences else Sounds)))"
  shows "used_sounds (snd (select_changed control (Value val) (s, w))) control
           = \<lparr>name = val, path = UserSounds\<rparr>
    \<and> files (snd (select_changed control (Value val) (s, w))) = files w
    \<and> (val \<notin> set (glob_names (files w UserSounds)) \<longrightarrow>
         name (used_sounds (snd (select_changed control (Value val) (s, w))) control)
           \<notin> set (glob_names (files (snd (select_changed control (Value val) (s, w)))
                 (path (used_sounds (snd (select_changed control (Value val) (s, w))) control)))))"
  using assms
  by (cases control) (simp_all add: select_changed_def update_used_sound_def Let_def)

theorem select_changed_records_user_sounds_witness:
  "''forest.wav'' \<in> set (ambiences_list (files forest_world))
   \<and> used_sounds (snd (select_changed Ambient (Value ''forest.wav'') (bell_settings, forest_world)))
        Ambient
       = \<lparr>name = ''forest.wav'', path = UserSounds\<rparr>
   \<and> ''forest.wav''
       \<notin> set (glob_names (files (snd (select_changed Ambient (Value ''forest.wav'')
                                        (bell_settings, forest_world))) UserSounds))"
proof -
  have a: "role_id Ambient
             \<notin> {set_alarm bell_settings, set_signal bell_settings, set_ambient bell_settings}"
    by (simp add: bell_settings_def)
  have b: "''forest.wav''
             \<notin> set (glob_names (files forest_world (if Ambient = Ambient then Ambiences else Sounds)))"
    by (simp add: forest_world_def glob_names_def)
  have c: "''forest.wav'' \<notin> set (glob_names (files forest_world UserSounds))"
    by (simp add: forest_world_def glob_names_def)
  have d: "''forest.wav'' \<in> set (ambiences_list (files forest_world))"
    by (simp add: forest_world_def ambiences_list_def sounds_list_def return_sounds_list_def
        glob_names_def path_suffix_def audio_suffixes_def)
  from select_changed_records_user_sounds [OF a b] c d show ?thesis
    by simp
qed

end
